theory Spec2Isabelle
  imports Main
begin

section \<open>Python strings\<close>

text \<open>
  A Python \<open>str\<close> is a sequence of Unicode code points; it is modelled as a list of
  natural numbers (one per code point), so that \<open>len\<close> is \<open>length\<close>.
  \<open>pystr_of\<close> turns an ASCII literal of the source into such a list.
\<close>

type_synonym pystr = "nat list"

definition pystr_of :: "string \<Rightarrow> pystr" where
  "pystr_of s = map of_char s"

text \<open>
  The code points that \<open>str.split()\<close> and \<open>str.strip()\<close> (called with no argument)
  treat as whitespace: TAB..CR, FS..US, SPACE, NEL, NBSP, OGHAM SPACE MARK, EN QUAD..HAIR
  SPACE, LINE and PARAGRAPH SEPARATOR, NARROW NBSP, MEDIUM MATHEMATICAL SPACE and
  IDEOGRAPHIC SPACE.
\<close>

definition isspace :: "nat \<Rightarrow> bool" where
  "isspace c =
     ((9 \<le> c \<and> c \<le> 13) \<or> (28 \<le> c \<and> c \<le> 32) \<or> c = 133 \<or> c = 160 \<or> c = 5760 \<or>
      (8192 \<le> c \<and> c \<le> 8202) \<or> c = 8232 \<or> c = 8233 \<or> c = 8239 \<or> c = 8287 \<or>
      c = 12288)"

text \<open>
  \<open>text.split()\<close>: the maximal runs of non-whitespace code points, in order. The scan
  keeps the word read so far; a whitespace code point closes it when it is not empty.
\<close>

fun split_from :: "pystr \<Rightarrow> pystr \<Rightarrow> pystr list" where
  "split_from word [] = (if word = [] then [] else [word])"
| "split_from word (c # cs) =
     (if isspace c
      then (if word = [] then split_from [] cs else word # split_from [] cs)
      else split_from (word @ [c]) cs)"

definition str_split :: "pystr \<Rightarrow> pystr list" where
  "str_split text = split_from [] text"

text \<open>\<open>text.strip()\<close>: leading and trailing whitespace removed.\<close>

definition str_strip :: "pystr \<Rightarrow> pystr" where
  "str_strip text = rev (dropWhile isspace (rev (dropWhile isspace text)))"

text \<open>\<open>sep.join(parts)\<close>.\<close>

fun str_join :: "pystr \<Rightarrow> pystr list \<Rightarrow> pystr" where
  "str_join sep [] = []"
| "str_join sep [x] = x"
| "str_join sep (x # y # ys) = x @ sep @ str_join sep (y # ys)"

section \<open>The chunker\<close>

text \<open>
  The loop of \<open>chunk_text\<close> over the words, on the three variables it updates:
  \<open>chunks\<close>, \<open>current_chunk\<close> and \<open>current_size\<close>. \<open>chunk_size\<close> is a Python
  integer, hence an \<open>int\<close> here.
\<close>

fun chunk_loop :: "int \<Rightarrow> pystr list \<Rightarrow> pystr list \<times> pystr list \<times> int
    \<Rightarrow> pystr list \<times> pystr list \<times> int" where
  "chunk_loop chunk_size [] st = st"
| "chunk_loop chunk_size (word # words) (chunks, current_chunk, current_size) =
     (let word_size = int (length word) + 1 in
      if current_size + word_size > chunk_size
      then chunk_loop chunk_size words
             (chunks @ [str_join (pystr_of '' '') current_chunk], [word], word_size)
      else chunk_loop chunk_size words
             (chunks, current_chunk @ [word], current_size + word_size))"

definition chunk_text :: "pystr \<Rightarrow> int \<Rightarrow> pystr list" where
  "chunk_text text chunk_size =
     (case chunk_loop chunk_size (str_split text) ([], [], 0) of
        (chunks, current_chunk, current_size) \<Rightarrow>
          if current_chunk \<noteq> [] then chunks @ [str_join (pystr_of '' '') current_chunk]
          else chunks)"

definition is_word :: "pystr \<Rightarrow> bool" where
  "is_word w = (w \<noteq> [] \<and> list_all (\<lambda>c. \<not> isspace c) w)"

text \<open>The size the loop accounts for a list of words: one more than each length.\<close>

definition words_size :: "pystr list \<Rightarrow> int" where
  "words_size ws = (\<Sum>w\<leftarrow>ws. int (length w) + 1)"

section \<open>Exceptions, effects and the environment\<close>

text \<open>
  The exceptions the program raises or receives. All of them are subclasses of Python's
  \<open>Exception\<close> (FastAPI's \<open>HTTPException\<close> included), so a handler
  \<open>except Exception\<close> catches every value of this type. \<open>RetryError\<close> is what the
  \<open>tenacity\<close> decorator raises when it gives up; it holds the last attempt's exception.
  \<open>AttributeError\<close> and \<open>UnicodeDecodeError\<close> carry their message; any other
  exception is given by the name of its class and its message.
\<close>

datatype exn =
    HTTPException nat pystr
  | RetryError exn
  | AttributeError pystr
  | UnicodeDecodeError pystr
  | OtherException pystr pystr

text \<open>
  What the program does to the outside world, in order: a call of
  \<open>model.generate_content(prompt)\<close> with what came back (the text of the response, or
  the exception raised by the call or by reading \<open>response.text\<close>), a
  \<open>time.sleep(random.uniform(lo, hi))\<close>, the wait of the retry decorator after a failed
  attempt, reading the upload, sniffing its type, and opening it as a PDF.
\<close>

datatype event =
    GenerateContent pystr "exn + pystr"
  | Sleep nat nat
  | RetryWait nat
  | FileRead
  | MagicFromBuffer
  | PdfRead

text \<open>
  A computation takes the trace of events so far and returns a value or raises, with the
  trace extended.
\<close>

type_synonym 'a io = "event list \<Rightarrow> (exn + 'a) \<times> event list"

definition io_return :: "'a \<Rightarrow> 'a io" where
  "io_return v w = (Inr v, w)"

definition io_raise :: "exn \<Rightarrow> 'a io" where
  "io_raise e w = (Inl e, w)"

definition io_bind :: "'a io \<Rightarrow> ('a \<Rightarrow> 'b io) \<Rightarrow> 'b io" where
  "io_bind m f w = (case m w of (Inr v, w') \<Rightarrow> f v w' | (Inl e, w') \<Rightarrow> (Inl e, w'))"

text \<open>\<open>try: body  except Exception as e: handler(e)\<close>.\<close>

definition try_except :: "'a io \<Rightarrow> (exn \<Rightarrow> 'a io) \<Rightarrow> 'a io" where
  "try_except body handler w =
     (case body w of (Inr v, w') \<Rightarrow> (Inr v, w') | (Inl e, w') \<Rightarrow> handler e w')"

definition emit :: "event \<Rightarrow> unit io" where
  "emit ev w = (Inr (), w @ [ev])"

text \<open>
  The collaborators the module is given: the global \<open>model\<close> (\<open>None\<close> when its
  construction failed at startup; otherwise the outcome of a generation call, which may
  depend on everything that happened before), \<open>str(e)\<close> for an exception,
  \<open>magic.from_buffer(content, mime=True)\<close>, \<open>PdfReader\<close> (failure to open, or the
  outcome of \<open>extract_text\<close> page by page) and \<open>content.decode(encoding)\<close>.
  An uploaded file's content is a byte string.
\<close>

record env =
  model :: "(event list \<Rightarrow> pystr \<Rightarrow> exn + pystr) option"
  exn_str :: "exn \<Rightarrow> pystr"
  magic_from_buffer :: "string \<Rightarrow> pystr"
  PdfReader :: "string \<Rightarrow> exn + (exn + pystr) list"
  decode :: "string \<Rightarrow> string \<Rightarrow> exn + pystr"

section \<open>The generation client\<close>

definition simplify_prompt_head :: pystr where
  "simplify_prompt_head =
     pystr_of ''You are a legal document simplifier. Simplify the following legal document section into easy-to-understand language while preserving its legal essence. Use simple terms and clear explanations.''
     @ [10, 10] @ pystr_of ''Document section:'' @ [10]"

definition generate_content :: "env \<Rightarrow> pystr \<Rightarrow> pystr io" where
  "generate_content env prompt w =
     (case model env of
        None \<Rightarrow>
          (Inl (AttributeError
             (pystr_of [CHR 0x27] @ pystr_of ''NoneType'' @ pystr_of [CHR 0x27]
              @ pystr_of '' object has no attribute ''
              @ pystr_of [CHR 0x27] @ pystr_of ''generate_content'' @ pystr_of [CHR 0x27])), w)
      | Some m \<Rightarrow> (m w prompt, w @ [GenerateContent prompt (m w prompt)]))"

text \<open>The body of \<open>simplify_text_chunk\<close>: one attempt.\<close>

definition simplify_attempt :: "env \<Rightarrow> pystr \<Rightarrow> pystr io" where
  "simplify_attempt env chunk =
     try_except (generate_content env (simplify_prompt_head @ chunk))
       (\<lambda>e. io_bind (emit (Sleep 2 5)) (\<lambda>_. io_raise e))"

text \<open>
  The \<open>@retry\<close> decorator with \<open>retry_if_exception_type(Exception)\<close>: the function is
  called again after every exception, until attempt number \<open>stop_after_attempt\<close> has
  failed; then \<open>RetryError\<close> is raised, holding that attempt's exception.
\<close>

function retry_call :: "nat \<Rightarrow> nat \<Rightarrow> 'a io \<Rightarrow> 'a io" where
  "retry_call stop_after_attempt attempt_number fn w =
     (case fn w of
        (Inr v, w') \<Rightarrow> (Inr v, w')
      | (Inl e, w') \<Rightarrow>
          if attempt_number \<ge> stop_after_attempt then (Inl (RetryError e), w')
          else retry_call stop_after_attempt (Suc attempt_number) fn
                 (w' @ [RetryWait attempt_number]))"
  by pat_completeness auto
termination
  by (relation "measure (\<lambda>(s, a, f, w). s - a)") auto

declare retry_call.simps [simp del]

definition simplify_text_chunk :: "env \<Rightarrow> pystr \<Rightarrow> pystr io" where
  "simplify_text_chunk env chunk = retry_call 3 1 (simplify_attempt env chunk)"

section \<open>The chunk pipeline\<close>

definition error_marker :: "env \<Rightarrow> exn \<Rightarrow> pystr" where
  "error_marker env sub_e =
     pystr_of ''[Error processing this section: '' @ exn_str env sub_e @ pystr_of '']''"

text \<open>The inner loop of \<open>process_chunks_with_rate_limit\<close>, over the sub-chunks.\<close>

fun process_sub_chunks :: "env \<Rightarrow> pystr list \<Rightarrow> pystr list \<Rightarrow> pystr list io" where
  "process_sub_chunks env [] simplified_chunks w = (Inr simplified_chunks, w)"
| "process_sub_chunks env (sub_chunk # rest) simplified_chunks w =
     (case try_except
             (io_bind (emit (Sleep 1 2)) (\<lambda>_.
              io_bind (simplify_text_chunk env sub_chunk) (\<lambda>simplified_sub_chunk.
              io_return (simplified_chunks @ [simplified_sub_chunk]))))
             (\<lambda>sub_e. io_return (simplified_chunks @ [error_marker env sub_e])) w of
        (Inr simplified_chunks', w') \<Rightarrow> process_sub_chunks env rest simplified_chunks' w'
      | (Inl e, w') \<Rightarrow> (Inl e, w'))"

text \<open>One turn of the outer loop, for the chunk at (1-based) position \<open>i\<close>.\<close>

definition process_chunk :: "env \<Rightarrow> nat \<Rightarrow> pystr \<Rightarrow> pystr list \<Rightarrow> pystr list io" where
  "process_chunk env i chunk simplified_chunks =
     try_except
       (io_bind (if i > 1 then emit (Sleep 1 3) else io_return ()) (\<lambda>_.
        io_bind (simplify_text_chunk env chunk) (\<lambda>simplified_chunk.
        io_return (simplified_chunks @ [simplified_chunk]))))
       (\<lambda>e. process_sub_chunks env (chunk_text chunk 8000) simplified_chunks)"

fun process_chunks_from :: "env \<Rightarrow> nat \<Rightarrow> pystr list \<Rightarrow> pystr list \<Rightarrow> pystr list io" where
  "process_chunks_from env i [] simplified_chunks w = (Inr simplified_chunks, w)"
| "process_chunks_from env i (chunk # rest) simplified_chunks w =
     (case process_chunk env i chunk simplified_chunks w of
        (Inr simplified_chunks', w') \<Rightarrow> process_chunks_from env (Suc i) rest simplified_chunks' w'
      | (Inl e, w') \<Rightarrow> (Inl e, w'))"

definition process_chunks_with_rate_limit :: "env \<Rightarrow> pystr list \<Rightarrow> pystr list io" where
  "process_chunks_with_rate_limit env chunks = process_chunks_from env 1 chunks []"

section \<open>The HTTP endpoints\<close>

text \<open>A pure call that may raise.\<close>

definition io_of :: "exn + 'a \<Rightarrow> 'a io" where
  "io_of r w = (r, w)"

text \<open>\<open>try: body  except E as e: handler(e)\<close> for the exceptions \<open>E\<close> that satisfy \<open>catches\<close>.\<close>

definition try_except_when :: "(exn \<Rightarrow> bool) \<Rightarrow> 'a io \<Rightarrow> (exn \<Rightarrow> 'a io) \<Rightarrow> 'a io" where
  "try_except_when catches body handler w =
     (case body w of
        (Inr v, w') \<Rightarrow> (Inr v, w')
      | (Inl e, w') \<Rightarrow> if catches e then handler e w' else (Inl e, w'))"

text \<open>
  The loop of \<open>read_pdf_file\<close> over the pages: \<open>extract_text\<close> may raise; a page whose
  text is blank is skipped.
\<close>

fun extract_pages :: "(exn + pystr) list \<Rightarrow> pystr list \<Rightarrow> exn + pystr list" where
  "extract_pages [] text_parts = Inr text_parts"
| "extract_pages (Inl e # pages) text_parts = Inl e"
| "extract_pages (Inr page_text # pages) text_parts =
     extract_pages pages
       (if str_strip page_text \<noteq> [] then text_parts @ [page_text] else text_parts)"

text \<open>
  \<open>read_pdf_file\<close>. The temporary file it writes and removes has no part in the result
  and is left out.
\<close>

definition read_pdf_file :: "env \<Rightarrow> string \<Rightarrow> pystr io" where
  "read_pdf_file env file_content =
     try_except
       (io_bind (emit PdfRead) (\<lambda>_.
        io_bind (io_of (PdfReader env file_content)) (\<lambda>pages.
        io_bind (io_of (extract_pages pages [])) (\<lambda>text_parts.
        io_return (str_join [10, 10] text_parts)))))
       (\<lambda>e. io_raise (HTTPException 400
          (pystr_of ''Could not read the PDF document. Please ensure it'' @ [39]
           @ pystr_of ''s a valid PDF file.'')))"

text \<open>The JSON bodies the endpoints return.\<close>

datatype response = SimplifyResponse pystr pystr | ChatResponse pystr

text \<open>
  \<open>POST /simplify\<close>. \<open>content\<close> is what \<open>await file.read()\<close> returns. Every statement
  of the handler stands inside its \<open>try\<close>, whose handler is \<open>except Exception as e\<close>.
\<close>

definition simplify_document :: "env \<Rightarrow> string \<Rightarrow> response io" where
  "simplify_document env content =
     try_except
       (io_bind (if model env = None
                 then io_raise (HTTPException 500
                   (pystr_of ''Gemini model not initialized properly. Please check your API key and model configuration.''))
                 else io_return ()) (\<lambda>_.
        io_bind (emit FileRead) (\<lambda>_.
        io_bind (emit MagicFromBuffer) (\<lambda>_.
        io_bind (let file_type = magic_from_buffer env content in
                 if file_type = pystr_of ''application/pdf'' then read_pdf_file env content
                 else if file_type = pystr_of ''text/plain'' then
                   try_except_when (\<lambda>e. case e of UnicodeDecodeError msg \<Rightarrow> True | _ \<Rightarrow> False)
                     (io_of (decode env ''utf-8'' content))
                     (\<lambda>_. try_except (io_of (decode env ''latin-1'' content))
                        (\<lambda>_. io_raise (HTTPException 400
                           (pystr_of ''Could not decode text file content. Please ensure it''
                            @ [39] @ pystr_of ''s a valid text file.''))))
                 else io_raise (HTTPException 400
                   (pystr_of ''Unsupported file type. Please upload a .txt or .pdf file.'')))
          (\<lambda>document_text.
        io_bind (if str_strip document_text = []
                 then io_raise (HTTPException 400 (pystr_of ''The uploaded file is empty''))
                 else io_return ()) (\<lambda>_.
        io_bind (process_chunks_with_rate_limit env (chunk_text document_text 15000))
          (\<lambda>simplified_chunks.
        io_return (SimplifyResponse document_text (str_join [10, 10] simplified_chunks)))))))))
       (\<lambda>e. io_raise (HTTPException 500 (exn_str env e)))"

text \<open>
  \<open>POST /chat\<close>. \<open>document_content\<close> is optional; the f-string prints \<open>None\<close> as the
  text \<open>None\<close>.
\<close>

definition chat_prompt :: "pystr \<Rightarrow> pystr option \<Rightarrow> pystr" where
  "chat_prompt message document_content =
     pystr_of ''You are a helpful legal assistant. Answer the following question about the legal document in a clear and concise manner.''
     @ [10, 10] @ pystr_of ''Question: '' @ message
     @ [10, 10] @ pystr_of ''Document content:'' @ [10]
     @ (case document_content of None \<Rightarrow> pystr_of ''None'' | Some d \<Rightarrow> d)"

definition chat_with_document :: "env \<Rightarrow> pystr \<Rightarrow> pystr option \<Rightarrow> response io" where
  "chat_with_document env message document_content =
     try_except
       (io_bind (simplify_text_chunk env (chat_prompt message document_content)) (\<lambda>response.
        io_return (ChatResponse response)))
       (\<lambda>e. io_raise (HTTPException 500 (exn_str env e)))"

text \<open>
  The status of the HTTP response: 200 for a returned body, the status of a raised
  \<open>HTTPException\<close>, and 500 for any other exception that leaves a handler.
\<close>

fun http_status :: "exn + 'a \<Rightarrow> nat" where
  "http_status (Inr body) = 200"
| "http_status (Inl (HTTPException status detail)) = status"
| "http_status (Inl e) = 500"

text \<open>The outcomes of the generation calls recorded in a trace, in order.\<close>

fun generate_outcomes :: "event list \<Rightarrow> (exn + pystr) list" where
  "generate_outcomes [] = []"
| "generate_outcomes (GenerateContent prompt r # tr) = r # generate_outcomes tr"
| "generate_outcomes (ev # tr) = generate_outcomes tr"

text \<open>
  Whether the generation calls recorded in the trace \<open>tr\<close>, which continues the trace
  \<open>w\<close>, are calls of the backend \<open>m\<close> on \<open>prompt\<close>: each recorded call has that
  prompt, and its recorded outcome is what \<open>m\<close> answers to it after the events before it.
\<close>

fun backend_calls_ok :: "(event list \<Rightarrow> pystr \<Rightarrow> exn + pystr) \<Rightarrow> pystr \<Rightarrow> event list
    \<Rightarrow> event list \<Rightarrow> bool" where
  "backend_calls_ok m prompt w [] = True"
| "backend_calls_ok m prompt w (GenerateContent q r # tr) =
     (q = prompt \<and> r = m w prompt \<and> backend_calls_ok m prompt (w @ [GenerateContent q r]) tr)"
| "backend_calls_ok m prompt w (ev # tr) = backend_calls_ok m prompt (w @ [ev]) tr"

section \<open>Example environments\<close>

text \<open>
  Concrete collaborators, used to run the definitions on closed inputs.

  \<open>str(e)\<close> as Python computes it: \<open>status: detail\<close> for an \<open>HTTPException\<close>; the
  message for an exception built from its message; and for a \<open>RetryError\<close> the text
  \<open>RetryError[<Future at ADDRESS state=finished raised CLASS>]\<close>, where \<open>CLASS\<close> is the
  class of the last attempt's exception and \<open>ADDRESS\<close> is the address of the attempt's
  future in the run at hand (a parameter here).
\<close>

function str_nat :: "nat \<Rightarrow> pystr" where
  "str_nat n = (if n < 10 then [48 + n] else str_nat (n div 10) @ [48 + n mod 10])"
  by pat_completeness auto
termination
  by (relation "measure id") auto

declare str_nat.simps [simp del]

fun exn_class :: "exn \<Rightarrow> pystr" where
  "exn_class (HTTPException status detail) = pystr_of ''HTTPException''"
| "exn_class (RetryError e) = pystr_of ''RetryError''"
| "exn_class (AttributeError msg) = pystr_of ''AttributeError''"
| "exn_class (UnicodeDecodeError msg) = pystr_of ''UnicodeDecodeError''"
| "exn_class (OtherException cls msg) = cls"

fun exn_message :: "pystr \<Rightarrow> exn \<Rightarrow> pystr" where
  "exn_message address (HTTPException status detail) = str_nat status @ pystr_of '': '' @ detail"
| "exn_message address (RetryError e) =
     pystr_of ''RetryError[<Future at '' @ address @ pystr_of '' state=finished raised ''
     @ exn_class e @ pystr_of ''>]''"
| "exn_message address (AttributeError msg) = msg"
| "exn_message address (UnicodeDecodeError msg) = msg"
| "exn_message address (OtherException cls msg) = msg"

text \<open>
  The backend \<open>flaky_backend limit\<close> raises on every prompt whose document section has
  \<open>limit\<close> code points or more, and otherwise answers with the document section itself.
  The backend \<open>recovering_backend k\<close> raises on its first \<open>k\<close> calls and answers with
  the document section from then on.
\<close>

definition quota_exceeded :: exn where
  "quota_exceeded = OtherException (pystr_of ''ResourceExhausted'') (pystr_of ''429 Quota exceeded'')"

definition flaky_backend :: "nat \<Rightarrow> event list \<Rightarrow> pystr \<Rightarrow> exn + pystr" where
  "flaky_backend limit tr prompt =
     (if length prompt \<ge> length simplify_prompt_head + limit
      then Inl quota_exceeded
      else Inr (drop (length simplify_prompt_head) prompt))"

definition recovering_backend :: "nat \<Rightarrow> event list \<Rightarrow> pystr \<Rightarrow> exn + pystr" where
  "recovering_backend k tr prompt =
     (if length (generate_outcomes tr) < k
      then Inl quota_exceeded
      else Inr (drop (length simplify_prompt_head) prompt))"

definition flaky_env :: "nat \<Rightarrow> pystr \<Rightarrow> env" where
  "flaky_env limit file_type =
     \<lparr> model = Some (flaky_backend limit),
       exn_str = exn_message (pystr_of ''0x7f2b8c1d4e50''),
       magic_from_buffer = (\<lambda>content. file_type),
       PdfReader = (\<lambda>content. Inr []),
       decode = (\<lambda>encoding content. Inr (map of_char content)) \<rparr>"

definition recovering_env :: "nat \<Rightarrow> env" where
  "recovering_env k = (flaky_env 0 (pystr_of ''text/plain'')) \<lparr> model := Some (recovering_backend k) \<rparr>"

definition broken_env :: env where
  "broken_env = (flaky_env 0 (pystr_of ''text/plain'')) \<lparr> model := None \<rparr>"

text \<open>A word of \<open>n\<close> copies of the code point \<open>c\<close>.\<close>

definition long_word :: "nat \<Rightarrow> nat \<Rightarrow> pystr" where
  "long_word n c = replicate n c"

section \<open>Facts about splitting and joining\<close>

lemma pystr_of_space: "pystr_of '' '' = [32]"
  by (simp add: pystr_of_def)

lemma isspace_32: "isspace 32"
  by (simp add: isspace_def)

lemma split_from_words:
  "list_all (\<lambda>c. \<not> isspace c) acc \<Longrightarrow> list_all is_word (split_from acc s)"
proof (induction s arbitrary: acc)
  case Nil
  then show ?case by (simp add: is_word_def)
next
  case (Cons c cs)
  show ?case
  proof (cases "isspace c")
    case True
    have rest: "list_all is_word (split_from [] cs)" by (rule Cons.IH) simp
    have "acc \<noteq> [] \<Longrightarrow> is_word acc" using Cons.prems by (simp add: is_word_def)
    with True rest show ?thesis by simp
  next
    case False
    with Cons.prems have "list_all (\<lambda>c. \<not> isspace c) (acc @ [c])" by simp
    from Cons.IH [OF this] False show ?thesis by simp
  qed
qed

lemma str_split_words: "list_all is_word (str_split s)"
  by (simp add: str_split_def split_from_words)

lemma split_from_at_space:
  "isspace c \<Longrightarrow> split_from acc (a @ c # b) = split_from acc a @ split_from [] b"
  by (induction a arbitrary: acc) auto

lemma split_from_word:
  "list_all (\<lambda>c. \<not> isspace c) w \<Longrightarrow> acc @ w \<noteq> [] \<Longrightarrow> split_from acc w = [acc @ w]"
  by (induction w arbitrary: acc) auto

lemma str_split_word: "is_word w \<Longrightarrow> str_split w = [w]"
  by (simp add: str_split_def is_word_def split_from_word)

lemma str_split_join: "str_split (str_join [32] xs) = concat (map str_split xs)"
proof (induction "[32::nat]" xs rule: str_join.induct)
  case 1
  show ?case by (simp add: str_split_def)
next
  case (2 x)
  show ?case by simp
next
  case (3 x y ys)
  have "str_split (x @ 32 # str_join [32] (y # ys))
      = str_split x @ str_split (str_join [32] (y # ys))"
    unfolding str_split_def by (rule split_from_at_space) (rule isspace_32)
  with 3 show ?case by simp
qed

lemma concat_split_words: "list_all is_word ws \<Longrightarrow> concat (map str_split ws) = ws"
  by (induction ws) (simp_all add: str_split_word)

lemma str_split_join_words: "list_all is_word ws \<Longrightarrow> str_split (str_join [32] ws) = ws"
  by (simp add: str_split_join concat_split_words)

lemma str_join_nonempty: "ws \<noteq> [] \<Longrightarrow> hd ws \<noteq> [] \<Longrightarrow> str_join sep ws \<noteq> []"
  by (induction sep ws rule: str_join.induct) simp_all

lemma length_str_join:
  "ws \<noteq> [] \<Longrightarrow> int (length (str_join [32] ws)) + 1 = words_size ws"
  by (induction "[32::nat]" ws rule: str_join.induct) (simp_all add: words_size_def)

section \<open>Facts about the chunking loop\<close>

lemma chunk_loop_prefix:
  "chunk_loop B ws (chunks, cur, n) =
     (case chunk_loop B ws ([], cur, n) of (cs, cur', n') \<Rightarrow> (chunks @ cs, cur', n'))"
proof (induction ws arbitrary: chunks cur n)
  case Nil
  show ?case by simp
next
  case (Cons w ws)
  show ?case
  proof (cases "n + (int (length w) + 1) > B")
    case True
    have a: "chunk_loop B ws (chunks @ [str_join (pystr_of '' '') cur], [w], int (length w) + 1)
        = (case chunk_loop B ws ([], [w], int (length w) + 1) of
             (cs, cur', n') \<Rightarrow> ((chunks @ [str_join (pystr_of '' '') cur]) @ cs, cur', n'))"
      by (rule Cons.IH)
    have b: "chunk_loop B ws ([str_join (pystr_of '' '') cur], [w], int (length w) + 1)
        = (case chunk_loop B ws ([], [w], int (length w) + 1) of
             (cs, cur', n') \<Rightarrow> ([str_join (pystr_of '' '') cur] @ cs, cur', n'))"
      by (rule Cons.IH)
    from True a b show ?thesis by (simp add: Let_def split: prod.splits)
  next
    case False
    with Cons.IH [of chunks "cur @ [w]"] show ?thesis by (simp add: Let_def)
  qed
qed

lemma chunk_loop_roundtrip:
  assumes "list_all is_word ws" and "list_all is_word cur"
    and "chunk_loop B ws (chunks, cur, n) = (chunks', cur', n')"
  shows "concat (map str_split chunks') @ cur' = concat (map str_split chunks) @ cur @ ws
    \<and> list_all is_word cur'"
  using assms
proof (induction ws arbitrary: chunks cur n)
  case Nil
  then show ?case by simp
next
  case (Cons w ws)
  from Cons.prems have w: "is_word w" and ws: "list_all is_word ws" by simp_all
  show ?case
  proof (cases "n + (int (length w) + 1) > B")
    case True
    with Cons.prems(3)
    have run: "chunk_loop B ws (chunks @ [str_join [32] cur], [w], int (length w) + 1)
        = (chunks', cur', n')"
      by (simp add: Let_def pystr_of_space)
    have "list_all is_word [w]" using w by simp
    from Cons.IH [OF ws this run] Cons.prems(2) show ?thesis
      by (simp add: str_split_join_words)
  next
    case False
    with Cons.prems(3)
    have run: "chunk_loop B ws (chunks, cur @ [w], n + (int (length w) + 1)) = (chunks', cur', n')"
      by (simp add: Let_def)
    have "list_all is_word (cur @ [w])" using w Cons.prems(2) by simp
    from Cons.IH [OF ws this run] show ?thesis by simp
  qed
qed

lemma chunk_text_words: "concat (map str_split (chunk_text T B)) = str_split T"
proof -
  obtain chunks cur n where run: "chunk_loop B (str_split T) ([], [], 0) = (chunks, cur, n)"
    by (cases "chunk_loop B (str_split T) ([], [], 0)") auto
  have "concat (map str_split chunks) @ cur = concat (map str_split []) @ [] @ str_split T
      \<and> list_all is_word cur"
    by (rule chunk_loop_roundtrip [OF str_split_words _ run]) simp
  then show ?thesis
    by (cases "cur = []") (auto simp add: chunk_text_def run pystr_of_space str_split_join_words)
qed

text \<open>
  C5. Chunk round trip: for every text \<open>T\<close> and every bound \<open>B\<close> (positive or not),
  joining \<open>chunk_text T B\<close> with single spaces and splitting the result on whitespace
  gives back the word sequence of \<open>T\<close>: no word is lost, duplicated, split or
  reordered.
\<close>

theorem chunk_text_roundtrip:
  "str_split (str_join (pystr_of '' '') (chunk_text T B)) = str_split T"
  by (simp add: pystr_of_space str_split_join chunk_text_words)

text \<open>
  C7. A text whose only word \<open>w\<close> has \<open>len(w) + 1 > B\<close> is chunked into the empty
  chunk followed by \<open>w\<close> itself: the oversized word is a chunk of its own, unsplit.
\<close>

theorem chunk_text_oversized_single_word:
  "str_split T = [w] \<Longrightarrow> B < int (length w) + 1 \<Longrightarrow> chunk_text T B = [[], w]"
  by (simp add: chunk_text_def Let_def)

theorem chunk_text_oversized_single_word_witness:
  "str_split [97, 98, 99, 100, 101] = [[97, 98, 99, 100, 101]]
   \<and> (3::int) < int (length [97::nat, 98, 99, 100, 101]) + 1
   \<and> chunk_text [97, 98, 99, 100, 101] 3 = [[], [97, 98, 99, 100, 101]]"
proof -
  have s: "str_split [97, 98, 99, 100, 101] = [[97, 98, 99, 100, 101]]"
    by (simp add: str_split_def isspace_def)
  have b: "(3::int) < int (length [97::nat, 98, 99, 100, 101]) + 1" by simp
  from chunk_text_oversized_single_word [OF s b] s b show ?thesis by simp
qed

lemma sealed_chunk_bound:
  assumes "0 \<le> B" and "set cur \<subseteq> W" and "2 \<le> length cur \<Longrightarrow> words_size cur \<le> B"
  shows "int (length (str_join [32] cur)) \<le> B
    \<or> (str_join [32] cur \<in> W \<and> B < int (length (str_join [32] cur)) + 1)"
proof (cases cur)
  case Nil
  with assms(1) show ?thesis by simp
next
  case (Cons w rest)
  show ?thesis
  proof (cases rest)
    case Nil
    with Cons assms(2) show ?thesis by auto
  next
    case (Cons v rest')
    with \<open>cur = w # rest\<close> have "2 \<le> length cur" by simp
    then have "words_size cur \<le> B" by (rule assms(3))
    moreover have "int (length (str_join [32] cur)) + 1 = words_size cur"
      by (rule length_str_join) (simp add: \<open>cur = w # rest\<close>)
    ultimately show ?thesis by simp
  qed
qed

lemma chunk_loop_bound:
  assumes "0 \<le> B" and "set ws \<subseteq> W" and "set cur \<subseteq> W" and "n = words_size cur"
    and "2 \<le> length cur \<longrightarrow> n \<le> B"
    and "\<forall>c\<in>set chunks. int (length c) \<le> B \<or> (c \<in> W \<and> B < int (length c) + 1)"
    and "chunk_loop B ws (chunks, cur, n) = (chunks', cur', n')"
  shows "(\<forall>c\<in>set chunks'. int (length c) \<le> B \<or> (c \<in> W \<and> B < int (length c) + 1))
    \<and> set cur' \<subseteq> W \<and> n' = words_size cur' \<and> (2 \<le> length cur' \<longrightarrow> n' \<le> B)"
  using assms(2-)
proof (induction ws arbitrary: chunks cur n)
  case Nil
  then show ?case by auto
next
  case (Cons w ws)
  from Cons.prems(1) have w: "w \<in> W" and ws: "set ws \<subseteq> W" by simp_all
  show ?case
  proof (cases "n + (int (length w) + 1) > B")
    case True
    with Cons.prems(6)
    have run: "chunk_loop B ws (chunks @ [str_join [32] cur], [w], int (length w) + 1)
        = (chunks', cur', n')"
      by (simp add: Let_def pystr_of_space)
    have sealed: "int (length (str_join [32] cur)) \<le> B
        \<or> (str_join [32] cur \<in> W \<and> B < int (length (str_join [32] cur)) + 1)"
      using assms(1) Cons.prems(2) Cons.prems(3,4) by (intro sealed_chunk_bound) auto
    have cs: "\<forall>c\<in>set (chunks @ [str_join [32] cur]).
        int (length c) \<le> B \<or> (c \<in> W \<and> B < int (length c) + 1)"
      using Cons.prems(5) sealed by auto
    show ?thesis
      by (rule Cons.IH [OF ws _ _ _ cs run]) (simp_all add: w words_size_def)
  next
    case False
    with Cons.prems(6)
    have run: "chunk_loop B ws (chunks, cur @ [w], n + (int (length w) + 1)) = (chunks', cur', n')"
      by (simp add: Let_def)
    show ?thesis
      by (rule Cons.IH [OF ws _ _ _ Cons.prems(5) run])
         (use False w Cons.prems(2,3) in \<open>simp_all add: words_size_def\<close>)
  qed
qed

lemma words_size_nonneg: "0 \<le> words_size ws"
  by (induction ws) (simp_all add: words_size_def)

lemma chunk_loop_oversized:
  assumes "n = words_size cur"
    and "\<forall>v\<in>set cur. B < int (length v) + 1 \<longrightarrow> cur = [v]"
    and "chunk_loop B ws (chunks, cur, n) = (chunks', cur', n')"
    and "B < int (length w) + 1"
    and "w \<in> set chunks \<or> cur = [w] \<or> w \<in> set ws"
  shows "w \<in> set chunks' \<or> cur' = [w]"
  using assms(1,2,3,5)
proof (induction ws arbitrary: chunks cur n)
  case Nil
  then show ?case by auto
next
  case (Cons v ws)
  show ?case
  proof (cases "n + (int (length v) + 1) > B")
    case True
    with Cons.prems(3)
    have run: "chunk_loop B ws (chunks @ [str_join [32] cur], [v], int (length v) + 1)
        = (chunks', cur', n')"
      by (simp add: Let_def pystr_of_space)
    have here: "w \<in> set (chunks @ [str_join [32] cur]) \<or> [v] = [w] \<or> w \<in> set ws"
      using Cons.prems(4) by auto
    show ?thesis
      by (rule Cons.IH [OF _ _ run here]) (simp_all add: words_size_def)
  next
    case False
    with Cons.prems(3)
    have run: "chunk_loop B ws (chunks, cur @ [v], n + (int (length v) + 1)) = (chunks', cur', n')"
      by (simp add: Let_def)
    have small: "\<not> B < int (length x) + 1" if "x \<in> set (cur @ [v])" for x
    proof
      assume big: "B < int (length x) + 1"
      show False
      proof (cases "x \<in> set cur")
        case True
        with Cons.prems(2) big have "cur = [x]" by blast
        with Cons.prems(1) have "n = int (length x) + 1" by (simp add: words_size_def)
        with big False show False by simp
      next
        case False
        with that have "x = v" by simp
        moreover have "0 \<le> n" using Cons.prems(1) words_size_nonneg by simp
        ultimately show False using big \<open>\<not> B < n + (int (length v) + 1)\<close> by simp
      qed
    qed
    have inv: "\<forall>x\<in>set (cur @ [v]). B < int (length x) + 1 \<longrightarrow> cur @ [v] = [x]"
      using small by blast
    have "cur \<noteq> [w]" using small [of w] assms(4) by auto
    moreover have "v \<noteq> w" using small [of v] assms(4) by auto
    ultimately have here: "w \<in> set chunks \<or> cur @ [v] = [w] \<or> w \<in> set ws"
      using Cons.prems(4) by auto
    show ?thesis
      by (rule Cons.IH [OF _ inv run here]) (simp add: Cons.prems(1) words_size_def)
  qed
qed

lemma chunk_text_oversized_word:
  assumes "w \<in> set (str_split T)" and "B < int (length w) + 1"
  shows "w \<in> set (chunk_text T B)"
proof -
  obtain chunks cur n where run: "chunk_loop B (str_split T) ([], [], 0) = (chunks, cur, n)"
    by (cases "chunk_loop B (str_split T) ([], [], 0)") auto
  have "w \<in> set chunks \<or> cur = [w]"
    by (rule chunk_loop_oversized [OF _ _ run assms(2)]) (simp_all add: words_size_def assms(1))
  then show ?thesis
    by (auto simp add: chunk_text_def run pystr_of_space)
qed

text \<open>
  C6. Chunk size bound, as the code has it: for a positive bound \<open>B\<close>, every chunk
  of \<open>chunk_text T B\<close> has length at most \<open>B\<close>, unless it is a chunk made of one
  word of \<open>T\<close> whose length plus one exceeds \<open>B\<close>; and every word of \<open>T\<close> whose
  length plus one exceeds \<open>B\<close> is a chunk of the output on its own. So a text may hold
  several chunks over the bound, not one at most.
\<close>

theorem chunk_text_size_bound:
  assumes "0 < B"
  shows "(\<forall>c\<in>set (chunk_text T B).
      int (length c) \<le> B \<or> (c \<in> set (str_split T) \<and> B < int (length c) + 1))
    \<and> (\<forall>w\<in>set (str_split T). B < int (length w) + 1 \<longrightarrow> w \<in> set (chunk_text T B))"
proof -
  obtain chunks cur n where run: "chunk_loop B (str_split T) ([], [], 0) = (chunks, cur, n)"
    by (cases "chunk_loop B (str_split T) ([], [], 0)") auto
  from assms have B: "0 \<le> B" by simp
  have inv: "(\<forall>c\<in>set chunks. int (length c) \<le> B
        \<or> (c \<in> set (str_split T) \<and> B < int (length c) + 1))
      \<and> set cur \<subseteq> set (str_split T) \<and> n = words_size cur \<and> (2 \<le> length cur \<longrightarrow> n \<le> B)"
    by (rule chunk_loop_bound [OF B _ _ _ _ _ run]) (simp_all add: words_size_def)
  have last: "int (length (str_join [32] cur)) \<le> B
      \<or> (str_join [32] cur \<in> set (str_split T) \<and> B < int (length (str_join [32] cur)) + 1)"
    using B inv by (intro sealed_chunk_bound) auto
  have upper: "\<forall>c\<in>set (chunk_text T B).
      int (length c) \<le> B \<or> (c \<in> set (str_split T) \<and> B < int (length c) + 1)"
    using inv last by (auto simp add: chunk_text_def run pystr_of_space)
  have each: "\<forall>w\<in>set (str_split T). B < int (length w) + 1 \<longrightarrow> w \<in> set (chunk_text T B)"
    using chunk_text_oversized_word by blast
  from upper each show ?thesis by blast
qed

theorem chunk_text_size_bound_witness:
  "(0::int) < 5
   \<and> str_split [97, 98, 32, 99, 32, 100, 101, 102, 103, 104, 105, 32, 106]
       = [[97, 98], [99], [100, 101, 102, 103, 104, 105], [106]]
   \<and> chunk_text [97, 98, 32, 99, 32, 100, 101, 102, 103, 104, 105, 32, 106] 5
       = [[97, 98, 32, 99], [100, 101, 102, 103, 104, 105], [106]]
   \<and> list_all (\<lambda>c. int (length c) \<le> 5
        \<or> (c \<in> set (str_split [97, 98, 32, 99, 32, 100, 101, 102, 103, 104, 105, 32, 106])
            \<and> 5 < int (length c) + 1))
       (chunk_text [97, 98, 32, 99, 32, 100, 101, 102, 103, 104, 105, 32, 106] 5)
   \<and> [100, 101, 102, 103, 104, 105]
       \<in> set (str_split [97, 98, 32, 99, 32, 100, 101, 102, 103, 104, 105, 32, 106])
   \<and> 5 < int (length [100::nat, 101, 102, 103, 104, 105]) + 1
   \<and> [100, 101, 102, 103, 104, 105]
       \<in> set (chunk_text [97, 98, 32, 99, 32, 100, 101, 102, 103, 104, 105, 32, 106] 5)"
proof -
  have b: "(0::int) < 5" by simp
  have s: "str_split [97, 98, 32, 99, 32, 100, 101, 102, 103, 104, 105, 32, 106]
       = [[97, 98], [99], [100, 101, 102, 103, 104, 105], [106]]"
    by (simp add: str_split_def isspace_def)
  have c: "chunk_text [97, 98, 32, 99, 32, 100, 101, 102, 103, 104, 105, 32, 106] 5
       = [[97, 98, 32, 99], [100, 101, 102, 103, 104, 105], [106]]"
    by (simp add: chunk_text_def str_split_def isspace_def pystr_of_space Let_def)
  from chunk_text_size_bound [OF b, of "[97, 98, 32, 99, 32, 100, 101, 102, 103, 104, 105, 32, 106]"]
  show ?thesis using b s c by (simp add: list_all_iff)
qed

text \<open>
  C6, the claim as stated: with two oversized words, two chunks exceed the bound, so
  more than one chunk is exempt from it.
\<close>

theorem chunk_text_two_oversized_chunks:
  "chunk_text [97, 97, 97, 97, 32, 98, 98, 98, 98] 2 = [[], [97, 97, 97, 97], [98, 98, 98, 98]]
   \<and> length (filter (\<lambda>c. 2 < int (length c))
         (chunk_text [97, 97, 97, 97, 32, 98, 98, 98, 98] 2)) = 2
   \<and> \<not> (\<exists>j. \<forall>i < length (chunk_text [97, 97, 97, 97, 32, 98, 98, 98, 98] 2).
         i = j \<or> int (length (chunk_text [97, 97, 97, 97, 32, 98, 98, 98, 98] 2 ! i)) \<le> 2)"
proof -
  have c: "chunk_text [97, 97, 97, 97, 32, 98, 98, 98, 98] 2
      = [[], [97, 97, 97, 97], [98, 98, 98, 98]]"
    by (simp add: chunk_text_def str_split_def isspace_def pystr_of_space Let_def)
  have "\<not> (\<exists>j. \<forall>i < length [[], [97, 97, 97, 97], [98, 98, 98, 98::nat]].
         i = j \<or> int (length ([[], [97, 97, 97, 97], [98, 98, 98, 98::nat]] ! i)) \<le> 2)"
  proof
    assume "\<exists>j. \<forall>i < length [[], [97, 97, 97, 97], [98, 98, 98, 98::nat]].
         i = j \<or> int (length ([[], [97, 97, 97, 97], [98, 98, 98, 98::nat]] ! i)) \<le> 2"
    then obtain j where j: "\<forall>i < length [[], [97, 97, 97, 97], [98, 98, 98, 98::nat]].
         i = j \<or> int (length ([[], [97, 97, 97, 97], [98, 98, 98, 98::nat]] ! i)) \<le> 2"
      by blast
    from j [rule_format, of 1] have "j = 1" by simp
    moreover from j [rule_format, of 2] have "j = 2" by simp
    ultimately show False by simp
  qed
  with c show ?thesis by simp
qed

lemma chunk_loop_no_empty:
  assumes "list_all is_word ws" and "cur \<noteq> []" and "list_all is_word cur"
    and "[] \<notin> set chunks" and "chunk_loop B ws (chunks, cur, n) = (chunks', cur', n')"
  shows "[] \<notin> set chunks' \<and> cur' \<noteq> [] \<and> list_all is_word cur'"
  using assms
proof (induction ws arbitrary: chunks cur n)
  case Nil
  then show ?case by auto
next
  case (Cons w ws)
  from Cons.prems(1) have w: "is_word w" and ws: "list_all is_word ws" by simp_all
  show ?case
  proof (cases "n + (int (length w) + 1) > B")
    case True
    with Cons.prems(5)
    have run: "chunk_loop B ws (chunks @ [str_join [32] cur], [w], int (length w) + 1)
        = (chunks', cur', n')"
      by (simp add: Let_def pystr_of_space)
    have "hd cur \<noteq> []" using Cons.prems(2,3) by (cases cur) (simp_all add: is_word_def)
    with Cons.prems(2) have "str_join [32] cur \<noteq> []" by (rule str_join_nonempty)
    with Cons.prems(4) have cs: "[] \<notin> set (chunks @ [str_join [32] cur])" by simp
    show ?thesis by (rule Cons.IH [OF ws _ _ cs run]) (simp_all add: w)
  next
    case False
    with Cons.prems(5)
    have run: "chunk_loop B ws (chunks, cur @ [w], n + (int (length w) + 1)) = (chunks', cur', n')"
      by (simp add: Let_def)
    show ?thesis
      by (rule Cons.IH [OF ws _ _ Cons.prems(4) run]) (simp_all add: w Cons.prems(3))
  qed
qed

lemma chunk_text_after_first_word:
  assumes "list_all is_word (w # ws)"
    and "chunk_loop B ws ([], [w], int (length w) + 1) = (chunks, cur, n)"
  shows "[] \<notin> set (chunks @ [str_join [32] cur]) \<and> cur \<noteq> []"
proof -
  from assms(1) have w: "list_all is_word [w]" and ws: "list_all is_word ws" by simp_all
  have inv: "[] \<notin> set chunks \<and> cur \<noteq> [] \<and> list_all is_word cur"
    by (rule chunk_loop_no_empty [OF ws _ w _ assms(2)]) simp_all
  then have "hd cur \<noteq> []" by (cases cur) (simp_all add: is_word_def)
  with inv have "str_join [32] cur \<noteq> []" by (intro str_join_nonempty) simp_all
  with inv show ?thesis by simp
qed

text \<open>
  C9. When the first word \<open>w\<close> of the text has \<open>len(w) + 1 > B\<close>, the first chunk of
  \<open>chunk_text T B\<close> is the empty string and no later chunk is empty; and an empty
  chunk appears in the output only in that case.
\<close>

theorem chunk_text_empty_chunk:
  "(\<forall>w ws. str_split T = w # ws \<longrightarrow> B < int (length w) + 1 \<longrightarrow>
      (\<exists>rest. chunk_text T B = [] # rest \<and> [] \<notin> set rest))
   \<and> ([] \<in> set (chunk_text T B) \<longrightarrow>
      (\<exists>w ws. str_split T = w # ws \<and> B < int (length w) + 1))"
proof (cases "str_split T")
  case Nil
  then show ?thesis by (simp add: chunk_text_def)
next
  case (Cons w ws)
  have words: "list_all is_word (w # ws)" using str_split_words [of T] Cons by simp
  obtain chunks cur n where run: "chunk_loop B ws ([], [w], int (length w) + 1) = (chunks, cur, n)"
    by (cases "chunk_loop B ws ([], [w], int (length w) + 1)") auto
  from chunk_text_after_first_word [OF words run]
  have ne: "[] \<notin> set (chunks @ [str_join [32] cur])" and cur: "cur \<noteq> []" by simp_all
  show ?thesis
  proof (cases "B < int (length w) + 1")
    case True
    have "chunk_loop B ws ([[]], [w], int (length w) + 1) = ([] # chunks, cur, n)"
      using chunk_loop_prefix [of B ws "[[]]" "[w]" "int (length w) + 1"] run by simp
    with True Cons cur have "chunk_text T B = [] # (chunks @ [str_join [32] cur])"
      by (simp add: chunk_text_def Let_def pystr_of_space)
    with ne Cons True show ?thesis by simp
  next
    case False
    with Cons run cur have "chunk_text T B = chunks @ [str_join [32] cur]"
      by (simp add: chunk_text_def Let_def pystr_of_space)
    with ne Cons False show ?thesis by simp
  qed
qed

theorem chunk_text_empty_chunk_witness:
  "str_split [97, 98, 99, 100, 32, 101] = [97, 98, 99, 100] # [[101]]
   \<and> (3::int) < int (length [97::nat, 98, 99, 100]) + 1
   \<and> chunk_text [97, 98, 99, 100, 32, 101] 3 = [[], [97, 98, 99, 100], [101]]
   \<and> [] \<in> set (chunk_text [97, 98, 99, 100, 32, 101] 3)
   \<and> (\<exists>rest. chunk_text [97, 98, 99, 100, 32, 101] 3 = [] # rest \<and> [] \<notin> set rest)"
proof -
  have s: "str_split [97, 98, 99, 100, 32, 101] = [97, 98, 99, 100] # [[101]]"
    by (simp add: str_split_def isspace_def)
  have b: "(3::int) < int (length [97::nat, 98, 99, 100]) + 1" by simp
  have c: "chunk_text [97, 98, 99, 100, 32, 101] 3 = [[], [97, 98, 99, 100], [101]]"
    by (simp add: chunk_text_def str_split_def isspace_def pystr_of_space Let_def)
  from chunk_text_empty_chunk [of "[97, 98, 99, 100, 32, 101]" 3] s b
  have "\<exists>rest. chunk_text [97, 98, 99, 100, 32, 101] 3 = [] # rest \<and> [] \<notin> set rest"
    by blast
  with s b c show ?thesis by simp
qed

section \<open>Facts about the generation client\<close>

lemma generate_outcomes_append:
  "generate_outcomes (xs @ ys) = generate_outcomes xs @ generate_outcomes ys"
  by (induction xs rule: generate_outcomes.induct) simp_all

lemma simplify_attempt_Some:
  "model env = Some m \<Longrightarrow> simplify_attempt env chunk w =
     (case m w (simplify_prompt_head @ chunk) of
        Inr text \<Rightarrow> (Inr text, w @ [GenerateContent (simplify_prompt_head @ chunk) (Inr text)])
      | Inl e \<Rightarrow> (Inl e, w @ [GenerateContent (simplify_prompt_head @ chunk) (Inl e), Sleep 2 5]))"
  by (simp add: simplify_attempt_def try_except_def generate_content_def io_bind_def emit_def
      io_raise_def split: sum.splits)

lemma retry_call_3:
  "retry_call 3 1 f w =
     (case f w of
        (Inr v, w1) \<Rightarrow> (Inr v, w1)
      | (Inl e1, w1) \<Rightarrow>
          (case f (w1 @ [RetryWait 1]) of
             (Inr v, w2) \<Rightarrow> (Inr v, w2)
           | (Inl e2, w2) \<Rightarrow>
               (case f (w2 @ [RetryWait 2]) of
                  (Inr v, w3) \<Rightarrow> (Inr v, w3)
                | (Inl e3, w3) \<Rightarrow> (Inl (RetryError e3), w3))))"
proof -
  have a: "retry_call 3 3 f u =
      (case f u of (Inr v, w3) \<Rightarrow> (Inr v, w3) | (Inl e3, w3) \<Rightarrow> (Inl (RetryError e3), w3))" for u
    by (subst retry_call.simps) (simp split: prod.splits sum.splits)
  have b: "retry_call 3 2 f u =
      (case f u of (Inr v, w2) \<Rightarrow> (Inr v, w2)
       | (Inl e2, w2) \<Rightarrow> retry_call 3 3 f (w2 @ [RetryWait 2]))" for u
    by (subst retry_call.simps)
       (simp add: numeral_3_eq_3 numeral_2_eq_2 split: prod.splits sum.splits)
  have c: "retry_call 3 1 f u =
      (case f u of (Inr v, w1) \<Rightarrow> (Inr v, w1)
       | (Inl e1, w1) \<Rightarrow> retry_call 3 2 f (w1 @ [RetryWait 1]))" for u
    by (subst retry_call.simps) (simp add: numeral_2_eq_2 split: prod.splits sum.splits)
  show ?thesis unfolding c b a by (rule refl)
qed

lemma simplify_text_chunk_Some:
  assumes "model env = Some m"
  shows "simplify_text_chunk env chunk w =
     (let p = simplify_prompt_head @ chunk; r1 = m w p; w1 = w @ [GenerateContent p r1] in
      case r1 of
        Inr answer \<Rightarrow> (Inr answer, w1)
      | Inl e1 \<Rightarrow>
          (let u2 = w1 @ [Sleep 2 5, RetryWait 1]; r2 = m u2 p; w2 = u2 @ [GenerateContent p r2] in
           case r2 of
             Inr answer \<Rightarrow> (Inr answer, w2)
           | Inl e2 \<Rightarrow>
               (let u3 = w2 @ [Sleep 2 5, RetryWait 2]; r3 = m u3 p;
                    w3 = u3 @ [GenerateContent p r3] in
                case r3 of
                  Inr answer \<Rightarrow> (Inr answer, w3)
                | Inl e3 \<Rightarrow> (Inl (RetryError e3), w3 @ [Sleep 2 5]))))"
  unfolding simplify_text_chunk_def retry_call_3
  by (simp add: simplify_attempt_Some [OF assms] Let_def split: sum.splits)

text \<open>
  C8. With an initialised backend \<open>m\<close>, one call of \<open>simplify_text_chunk\<close> makes at
  least one and at most three generation calls, each of them a call of \<open>m\<close> on the
  simplification prompt of the chunk; every call but the last one raised; when the last
  call returned, its text is the result; when the last call raised, it was the third
  one (an exception of the call is always retried while attempts remain) and the caller
  receives \<open>RetryError\<close> holding that last exception. In particular: when the first
  call of \<open>m\<close> raises, \<open>m\<close> is called again; when \<open>m\<close> raises three times, the error
  raised holds the third exception; and the text of the first call that returns is the
  result.
\<close>

theorem simplify_text_chunk_retries:
  assumes "model env = Some m"
  shows "(\<exists>tr. snd (simplify_text_chunk env chunk w) = w @ tr
      \<and> backend_calls_ok m (simplify_prompt_head @ chunk) w tr
      \<and> 1 \<le> length (generate_outcomes tr) \<and> length (generate_outcomes tr) \<le> 3
      \<and> list_all isl (butlast (generate_outcomes tr))
      \<and> (case last (generate_outcomes tr) of
           Inr answer \<Rightarrow> fst (simplify_text_chunk env chunk w) = Inr answer
         | Inl e \<Rightarrow> length (generate_outcomes tr) = 3
             \<and> fst (simplify_text_chunk env chunk w) = Inl (RetryError e)))
    \<and> (\<forall>answer. m w (simplify_prompt_head @ chunk) = Inr answer \<longrightarrow>
          simplify_text_chunk env chunk w
            = (Inr answer, w @ [GenerateContent (simplify_prompt_head @ chunk) (Inr answer)]))
    \<and> (\<forall>e1. m w (simplify_prompt_head @ chunk) = Inl e1 \<longrightarrow>
          length (generate_outcomes (snd (simplify_text_chunk env chunk w))) \<ge>
            length (generate_outcomes w) + 2)
    \<and> (\<forall>e1 e2 e3.
          m w (simplify_prompt_head @ chunk) = Inl e1 \<longrightarrow>
          m (w @ [GenerateContent (simplify_prompt_head @ chunk) (Inl e1), Sleep 2 5, RetryWait 1])
            (simplify_prompt_head @ chunk) = Inl e2 \<longrightarrow>
          m (w @ [GenerateContent (simplify_prompt_head @ chunk) (Inl e1), Sleep 2 5, RetryWait 1,
                  GenerateContent (simplify_prompt_head @ chunk) (Inl e2), Sleep 2 5, RetryWait 2])
            (simplify_prompt_head @ chunk) = Inl e3 \<longrightarrow>
          fst (simplify_text_chunk env chunk w) = Inl (RetryError e3))"
proof (intro conjI allI impI)
  show "\<exists>tr. snd (simplify_text_chunk env chunk w) = w @ tr
      \<and> backend_calls_ok m (simplify_prompt_head @ chunk) w tr
      \<and> 1 \<le> length (generate_outcomes tr) \<and> length (generate_outcomes tr) \<le> 3
      \<and> list_all isl (butlast (generate_outcomes tr))
      \<and> (case last (generate_outcomes tr) of
           Inr answer \<Rightarrow> fst (simplify_text_chunk env chunk w) = Inr answer
         | Inl e \<Rightarrow> length (generate_outcomes tr) = 3
             \<and> fst (simplify_text_chunk env chunk w) = Inl (RetryError e))"
    unfolding simplify_text_chunk_Some [OF assms]
    by (simp add: Let_def split: sum.splits)
next
  fix answer
  assume "m w (simplify_prompt_head @ chunk) = Inr answer"
  then show "simplify_text_chunk env chunk w
      = (Inr answer, w @ [GenerateContent (simplify_prompt_head @ chunk) (Inr answer)])"
    unfolding simplify_text_chunk_Some [OF assms] by (simp add: Let_def)
next
  fix e1
  assume "m w (simplify_prompt_head @ chunk) = Inl e1"
  then show "length (generate_outcomes (snd (simplify_text_chunk env chunk w))) \<ge>
      length (generate_outcomes w) + 2"
    unfolding simplify_text_chunk_Some [OF assms]
    by (simp add: Let_def generate_outcomes_append split: sum.splits)
next
  fix e1 e2 e3
  assume "m w (simplify_prompt_head @ chunk) = Inl e1"
    and "m (w @ [GenerateContent (simplify_prompt_head @ chunk) (Inl e1), Sleep 2 5, RetryWait 1])
            (simplify_prompt_head @ chunk) = Inl e2"
    and "m (w @ [GenerateContent (simplify_prompt_head @ chunk) (Inl e1), Sleep 2 5, RetryWait 1,
                  GenerateContent (simplify_prompt_head @ chunk) (Inl e2), Sleep 2 5, RetryWait 2])
            (simplify_prompt_head @ chunk) = Inl e3"
  then show "fst (simplify_text_chunk env chunk w) = Inl (RetryError e3)"
    unfolding simplify_text_chunk_Some [OF assms] by (simp add: Let_def)
qed

lemma flaky_backend_fails:
  "limit \<le> length chunk \<Longrightarrow>
   flaky_backend limit tr (simplify_prompt_head @ chunk) = Inl quota_exceeded"
  by (simp add: flaky_backend_def)

lemma flaky_backend_echoes:
  "length chunk < limit \<Longrightarrow> flaky_backend limit tr (simplify_prompt_head @ chunk) = Inr chunk"
  by (simp add: flaky_backend_def)

lemma model_flaky_env: "model (flaky_env limit ft) = Some (flaky_backend limit)"
  by (simp add: flaky_env_def)

lemma exn_str_flaky_env: "exn_str (flaky_env limit ft) = exn_message (pystr_of ''0x7f2b8c1d4e50'')"
  by (simp add: flaky_env_def)

lemma flaky_simplify_fails:
  "limit \<le> length chunk \<Longrightarrow>
   simplify_text_chunk (flaky_env limit ft) chunk w =
     (Inl (RetryError quota_exceeded),
      w @ [GenerateContent (simplify_prompt_head @ chunk) (Inl quota_exceeded),
           Sleep 2 5, RetryWait 1,
           GenerateContent (simplify_prompt_head @ chunk) (Inl quota_exceeded),
           Sleep 2 5, RetryWait 2,
           GenerateContent (simplify_prompt_head @ chunk) (Inl quota_exceeded),
           Sleep 2 5])"
  unfolding simplify_text_chunk_def retry_call_3
  by (simp add: simplify_attempt_Some [OF model_flaky_env] flaky_backend_fails)

lemma flaky_simplify_echoes:
  "length chunk < limit \<Longrightarrow>
   simplify_text_chunk (flaky_env limit ft) chunk w =
     (Inr chunk, w @ [GenerateContent (simplify_prompt_head @ chunk) (Inr chunk)])"
  unfolding simplify_text_chunk_def retry_call_3
  by (simp add: simplify_attempt_Some [OF model_flaky_env] flaky_backend_echoes)

lemma model_recovering_env: "model (recovering_env k) = Some (recovering_backend k)"
  by (simp add: recovering_env_def)

lemma recovering_run:
  "simplify_text_chunk (recovering_env 2) [120] [] =
     (Inr [120],
      [GenerateContent (simplify_prompt_head @ [120]) (Inl quota_exceeded), Sleep 2 5, RetryWait 1,
       GenerateContent (simplify_prompt_head @ [120]) (Inl quota_exceeded), Sleep 2 5, RetryWait 2,
       GenerateContent (simplify_prompt_head @ [120]) (Inr [120])])"
  unfolding simplify_text_chunk_Some [OF model_recovering_env]
  by (simp add: Let_def recovering_backend_def)

theorem simplify_text_chunk_retries_witness:
  "model (recovering_env 2) = Some (recovering_backend 2)
   \<and> recovering_backend 2 [] (simplify_prompt_head @ [120]) = Inl quota_exceeded
   \<and> simplify_text_chunk (recovering_env 2) [120] [] =
       (Inr [120],
        [GenerateContent (simplify_prompt_head @ [120]) (Inl quota_exceeded), Sleep 2 5, RetryWait 1,
         GenerateContent (simplify_prompt_head @ [120]) (Inl quota_exceeded), Sleep 2 5, RetryWait 2,
         GenerateContent (simplify_prompt_head @ [120]) (Inr [120])])
   \<and> length (generate_outcomes (snd (simplify_text_chunk (recovering_env 2) [120] []))) \<ge>
       length (generate_outcomes []) + 2
   \<and> model (flaky_env 0 []) = Some (flaky_backend 0)
   \<and> flaky_backend 0 [] (simplify_prompt_head @ [120]) = Inl quota_exceeded
   \<and> flaky_backend 0
         [GenerateContent (simplify_prompt_head @ [120]) (Inl quota_exceeded), Sleep 2 5, RetryWait 1]
         (simplify_prompt_head @ [120]) = Inl quota_exceeded
   \<and> flaky_backend 0
         [GenerateContent (simplify_prompt_head @ [120]) (Inl quota_exceeded), Sleep 2 5, RetryWait 1,
          GenerateContent (simplify_prompt_head @ [120]) (Inl quota_exceeded), Sleep 2 5, RetryWait 2]
         (simplify_prompt_head @ [120]) = Inl quota_exceeded
   \<and> fst (simplify_text_chunk (flaky_env 0 []) [120] []) = Inl (RetryError quota_exceeded)
   \<and> length (generate_outcomes (snd (simplify_text_chunk (flaky_env 0 []) [120] []))) = 3"
proof -
  have m: "model (recovering_env 2) = Some (recovering_backend 2)"
    by (rule model_recovering_env)
  have f1: "recovering_backend 2 [] (simplify_prompt_head @ [120]) = Inl quota_exceeded"
    by (simp add: recovering_backend_def)
  note thm1 = simplify_text_chunk_retries [OF m, of "[120]" "[]"]
  from thm1 f1
  have twice: "length (generate_outcomes (snd (simplify_text_chunk (recovering_env 2) [120] []))) \<ge>
       length (generate_outcomes []) + 2"
    by blast
  have n: "model (flaky_env 0 []) = Some (flaky_backend 0)" by (rule model_flaky_env)
  have g: "flaky_backend 0 tr (simplify_prompt_head @ [120]) = Inl quota_exceeded" for tr
    by (simp add: flaky_backend_fails)
  note thm2 = simplify_text_chunk_retries [OF n, of "[120]" "[]"]
  from thm2 g
  have third: "fst (simplify_text_chunk (flaky_env 0 []) [120] []) = Inl (RetryError quota_exceeded)"
    by blast
  have count: "length (generate_outcomes (snd (simplify_text_chunk (flaky_env 0 []) [120] []))) = 3"
    by (simp add: flaky_simplify_fails)
  from m f1 recovering_run twice n g third count show ?thesis by blast
qed

section \<open>Facts about the chunk pipeline\<close>

lemma process_sub_chunks_step:
  "process_sub_chunks env (sub_chunk # rest) acc w =
     (case simplify_text_chunk env sub_chunk (w @ [Sleep 1 2]) of
        (Inr r, w') \<Rightarrow> process_sub_chunks env rest (acc @ [r]) w'
      | (Inl e, w') \<Rightarrow> process_sub_chunks env rest (acc @ [error_marker env e]) w')"
  by (simp add: try_except_def io_bind_def emit_def io_return_def split: prod.splits sum.splits)


lemma process_chunk_cases:
  "process_chunk env i chunk acc w =
     (case simplify_text_chunk env chunk (if i > 1 then w @ [Sleep 1 3] else w) of
        (Inr r, w') \<Rightarrow> (Inr (acc @ [r]), w')
      | (Inl e, w') \<Rightarrow> process_sub_chunks env (chunk_text chunk 8000) acc w')"
  by (simp add: process_chunk_def try_except_def io_bind_def emit_def io_return_def
      split: prod.splits sum.splits)





section \<open>The fallback on a failed chunk\<close>

lemma str_split_blank: "list_all isspace s \<Longrightarrow> split_from [] s = []"
  by (induction s) simp_all

text \<open>
  C10. When generation fails on a top-level chunk that holds no word (it is empty or
  all whitespace), the fallback re-chunking gives no sub-chunk, so nothing is appended
  for that chunk, neither a fragment nor an error marker, and the pipeline goes on with
  the next chunk.
\<close>

theorem blank_chunk_dropped:
  assumes "list_all isspace chunk"
    and "simplify_text_chunk env chunk (if i > 1 then w @ [Sleep 1 3] else w) = (Inl e, w')"
  shows "chunk_text chunk 8000 = []
    \<and> process_chunk env i chunk acc w = (Inr acc, w')
    \<and> process_chunks_from env i (chunk # rest) acc w = process_chunks_from env (Suc i) rest acc w'"
proof -
  from assms(1) have c: "chunk_text chunk 8000 = []"
    by (simp add: chunk_text_def str_split_def str_split_blank)
  with assms(2) have "process_chunk env i chunk acc w = (Inr acc, w')"
    by (simp add: process_chunk_cases)
  with c show ?thesis by simp
qed

theorem blank_chunk_dropped_witness:
  "list_all isspace [32, 10, 9]
   \<and> simplify_text_chunk (flaky_env 0 []) [32, 10, 9] (if (2::nat) > 1 then [] @ [Sleep 1 3] else [])
       = (Inl (RetryError quota_exceeded),
          snd (simplify_text_chunk (flaky_env 0 []) [32, 10, 9] [Sleep 1 3]))
   \<and> chunk_text [32, 10, 9] 8000 = []
   \<and> process_chunk (flaky_env 0 []) 2 [32, 10, 9] [[120]] []
       = (Inr [[120]], snd (simplify_text_chunk (flaky_env 0 []) [32, 10, 9] [Sleep 1 3]))"
proof -
  have a: "list_all isspace [32, 10, 9]" by (simp add: isspace_def)
  have b: "simplify_text_chunk (flaky_env 0 []) [32, 10, 9]
        (if (2::nat) > 1 then [] @ [Sleep 1 3] else [])
       = (Inl (RetryError quota_exceeded),
          snd (simplify_text_chunk (flaky_env 0 []) [32, 10, 9] [Sleep 1 3]))"
    by (simp add: flaky_simplify_fails)
  from blank_chunk_dropped [OF a b, of "[[120]]" "[]"] a b show ?thesis by blast
qed

text \<open>
  C4. Three chunks; generation succeeds on the first and the third and fails on the
  second, whose re-chunking with bound 8000 gives two sub-chunks; generation succeeds
  on the first sub-chunk and fails on the second. The pipeline then returns exactly
  four fragments, in this order: the first chunk's, the first sub-chunk's, the error
  marker of the second sub-chunk, the third chunk's.
\<close>

theorem pipeline_fallback_order:
  assumes "simplify_text_chunk env c1 w0 = (Inr fragment1, w1)"
    and "simplify_text_chunk env c2 (w1 @ [Sleep 1 3]) = (Inl e2, w2)"
    and "chunk_text c2 8000 = [s2a, s2b]"
    and "simplify_text_chunk env s2a (w2 @ [Sleep 1 2]) = (Inr subfragment2a, w3)"
    and "simplify_text_chunk env s2b (w3 @ [Sleep 1 2]) = (Inl e2b, w4)"
    and "simplify_text_chunk env c3 (w4 @ [Sleep 1 3]) = (Inr fragment3, w5)"
  shows "process_chunks_with_rate_limit env [c1, c2, c3] w0 =
      (Inr [fragment1, subfragment2a,
            pystr_of ''[Error processing this section: '' @ exn_str env e2b @ pystr_of '']'',
            fragment3], w5)
    \<and> length [fragment1, subfragment2a,
            pystr_of ''[Error processing this section: '' @ exn_str env e2b @ pystr_of '']'',
            fragment3] = 4"
proof -
  have first: "process_chunk env 1 c1 [] w0 = (Inr [fragment1], w1)"
    using assms(1) by (simp add: process_chunk_cases)
  have subs: "process_sub_chunks env [s2a, s2b] [fragment1] w2
      = (Inr [fragment1, subfragment2a, error_marker env e2b], w4)"
    unfolding process_sub_chunks_step using assms(4,5) by simp
  have second: "process_chunk env 2 c2 [fragment1] w1
      = (Inr [fragment1, subfragment2a, error_marker env e2b], w4)"
    using assms(2,3) subs by (simp add: process_chunk_cases)
  have third: "process_chunk env 3 c3 [fragment1, subfragment2a, error_marker env e2b] w4
      = (Inr [fragment1, subfragment2a, error_marker env e2b, fragment3], w5)"
    using assms(6) by (simp add: process_chunk_cases)
  have "process_chunks_from env 1 [c1, c2, c3] [] w0
      = (Inr [fragment1, subfragment2a, error_marker env e2b, fragment3], w5)"
    using first second third by (simp add: numeral_2_eq_2 numeral_3_eq_3)
  then show ?thesis
    by (simp add: process_chunks_with_rate_limit_def error_marker_def)
qed

lemma length_long_word: "length (long_word n c) = n"
  by (simp add: long_word_def)

lemma is_word_long_word: "0 < n \<Longrightarrow> \<not> isspace c \<Longrightarrow> is_word (long_word n c)"
  by (simp add: long_word_def is_word_def list_all_iff)

lemma str_split_two_words:
  "is_word a \<Longrightarrow> is_word b \<Longrightarrow> str_split (a @ 32 # b) = [a, b]"
proof -
  assume a: "is_word a" and b: "is_word b"
  have "str_split (a @ 32 # b) = str_split a @ str_split b"
    unfolding str_split_def by (rule split_from_at_space) (rule isspace_32)
  with a b show ?thesis by (simp add: str_split_word)
qed

lemma chunk_text_two_words:
  assumes "is_word a" and "is_word b" and "int (length a) + 1 \<le> B"
    and "B < int (length a) + int (length b) + 2"
  shows "chunk_text (a @ 32 # b) B = [a, b]"
  using assms(3,4)
  by (simp add: chunk_text_def str_split_two_words [OF assms(1,2)] Let_def pystr_of_space)

theorem pipeline_fallback_order_witness:
  "(\<forall>w. fst (simplify_text_chunk (flaky_env 6000 []) [97] w) = Inr [97])
   \<and> (\<forall>w. fst (simplify_text_chunk (flaky_env 6000 [])
               (long_word 5000 98 @ 32 # long_word 6000 99) w)
          = Inl (RetryError quota_exceeded))
   \<and> chunk_text (long_word 5000 98 @ 32 # long_word 6000 99) 8000
       = [long_word 5000 98, long_word 6000 99]
   \<and> (\<forall>w. fst (simplify_text_chunk (flaky_env 6000 []) (long_word 5000 98) w)
          = Inr (long_word 5000 98))
   \<and> (\<forall>w. fst (simplify_text_chunk (flaky_env 6000 []) (long_word 6000 99) w)
          = Inl (RetryError quota_exceeded))
   \<and> (\<forall>w. fst (simplify_text_chunk (flaky_env 6000 []) [100] w) = Inr [100])
   \<and> fst (process_chunks_with_rate_limit (flaky_env 6000 [])
            [[97], long_word 5000 98 @ 32 # long_word 6000 99, [100]] [])
       = Inr [[97], long_word 5000 98,
              pystr_of ''[Error processing this section: ''
              @ exn_str (flaky_env 6000 []) (RetryError quota_exceeded)
              @ pystr_of '']'',
              [100]]"
proof -
  define w1 where "w1 = snd (simplify_text_chunk (flaky_env 6000 []) [97] [])"
  define w2 where "w2 = snd (simplify_text_chunk (flaky_env 6000 [])
      (long_word 5000 98 @ 32 # long_word 6000 99) (w1 @ [Sleep 1 3]))"
  define w3 where "w3 = snd (simplify_text_chunk (flaky_env 6000 []) (long_word 5000 98)
      (w2 @ [Sleep 1 2]))"
  define w4 where "w4 = snd (simplify_text_chunk (flaky_env 6000 []) (long_word 6000 99)
      (w3 @ [Sleep 1 2]))"
  define w5 where "w5 = snd (simplify_text_chunk (flaky_env 6000 []) [100] (w4 @ [Sleep 1 3]))"
  have a1: "fst (simplify_text_chunk (flaky_env 6000 []) [97] w) = Inr [97]" for w
    by (simp add: flaky_simplify_echoes)
  have a2: "fst (simplify_text_chunk (flaky_env 6000 [])
        (long_word 5000 98 @ 32 # long_word 6000 99) w)
      = Inl (RetryError quota_exceeded)" for w
    by (simp add: flaky_simplify_fails length_long_word)
  have a3: "chunk_text (long_word 5000 98 @ 32 # long_word 6000 99) 8000
      = [long_word 5000 98, long_word 6000 99]"
    by (rule chunk_text_two_words)
       (simp_all add: is_word_long_word length_long_word isspace_def)
  have a4: "fst (simplify_text_chunk (flaky_env 6000 []) (long_word 5000 98) w)
      = Inr (long_word 5000 98)" for w
    by (simp add: flaky_simplify_echoes length_long_word)
  have a5: "fst (simplify_text_chunk (flaky_env 6000 []) (long_word 6000 99) w)
      = Inl (RetryError quota_exceeded)" for w
    by (simp add: flaky_simplify_fails length_long_word)
  have a6: "fst (simplify_text_chunk (flaky_env 6000 []) [100] w) = Inr [100]" for w
    by (simp add: flaky_simplify_echoes)
  have h1: "simplify_text_chunk (flaky_env 6000 []) [97] [] = (Inr [97], w1)"
    unfolding w1_def using a1 [of "[]"] by (simp add: prod_eq_iff)
  have h2: "simplify_text_chunk (flaky_env 6000 [])
        (long_word 5000 98 @ 32 # long_word 6000 99) (w1 @ [Sleep 1 3])
      = (Inl (RetryError quota_exceeded), w2)"
    unfolding w2_def using a2 [of "w1 @ [Sleep 1 3]"] by (simp add: prod_eq_iff)
  have h4: "simplify_text_chunk (flaky_env 6000 []) (long_word 5000 98) (w2 @ [Sleep 1 2])
      = (Inr (long_word 5000 98), w3)"
    unfolding w3_def using a4 [of "w2 @ [Sleep 1 2]"] by (simp add: prod_eq_iff)
  have h5: "simplify_text_chunk (flaky_env 6000 []) (long_word 6000 99) (w3 @ [Sleep 1 2])
      = (Inl (RetryError quota_exceeded), w4)"
    unfolding w4_def using a5 [of "w3 @ [Sleep 1 2]"] by (simp add: prod_eq_iff)
  have h6: "simplify_text_chunk (flaky_env 6000 []) [100] (w4 @ [Sleep 1 3]) = (Inr [100], w5)"
    unfolding w5_def using a6 [of "w4 @ [Sleep 1 3]"] by (simp add: prod_eq_iff)
  from pipeline_fallback_order [OF h1 h2 a3 h4 h5 h6]
  have "fst (process_chunks_with_rate_limit (flaky_env 6000 [])
            [[97], long_word 5000 98 @ 32 # long_word 6000 99, [100]] [])
       = Inr [[97], long_word 5000 98,
              pystr_of ''[Error processing this section: ''
              @ exn_str (flaky_env 6000 []) (RetryError quota_exceeded)
              @ pystr_of '']'',
              [100]]"
    by simp
  with a1 a2 a3 a4 a5 a6 show ?thesis by blast
qed

section \<open>The HTTP endpoints\<close>

lemma str_nat_400: "str_nat 400 = [52, 48, 48]"
  by (simp add: str_nat.simps [of 400] str_nat.simps [of 40] str_nat.simps [of 4])

lemma str_nat_500: "str_nat 500 = [53, 48, 48]"
  by (simp add: str_nat.simps [of 500] str_nat.simps [of 50] str_nat.simps [of 5])

lemma magic_flaky_env: "magic_from_buffer (flaky_env limit ft) content = ft"
  by (simp add: flaky_env_def)

lemma decode_flaky_env: "decode (flaky_env limit ft) encoding content = Inr (map of_char content)"
  by (simp add: flaky_env_def)

lemma simplify_document_raises_500:
  "fst (simplify_document env content w) = Inl x \<Longrightarrow> \<exists>detail. x = HTTPException 500 detail"
  by (auto simp add: simplify_document_def try_except_def io_raise_def
      split: prod.splits sum.splits)

lemma simplify_document_status:
  "http_status (fst (simplify_document env content w)) = 200
   \<or> http_status (fst (simplify_document env content w)) = 500"
proof (cases "fst (simplify_document env content w)")
  case (Inl x)
  with simplify_document_raises_500 [OF Inl] show ?thesis by auto
next
  case (Inr body)
  then show ?thesis by simp
qed

lemma simplify_document_unsupported:
  assumes "model env = Some m"
    and "magic_from_buffer env content \<noteq> pystr_of ''application/pdf''"
    and "magic_from_buffer env content \<noteq> pystr_of ''text/plain''"
  shows "simplify_document env content w =
     (Inl (HTTPException 500 (exn_str env (HTTPException 400
        (pystr_of ''Unsupported file type. Please upload a .txt or .pdf file.'')))),
      w @ [FileRead, MagicFromBuffer])"
  using assms
  by (simp add: simplify_document_def try_except_def io_bind_def io_raise_def io_return_def
      emit_def Let_def)

lemma simplify_document_blank_text:
  assumes "model env = Some m"
    and "magic_from_buffer env content = pystr_of ''text/plain''"
    and "decode env ''utf-8'' content = Inr document_text"
    and "str_strip document_text = []"
  shows "simplify_document env content w =
     (Inl (HTTPException 500 (exn_str env (HTTPException 400
        (pystr_of ''The uploaded file is empty'')))),
      w @ [FileRead, MagicFromBuffer])"
proof -
  have "pystr_of ''text/plain'' \<noteq> pystr_of ''application/pdf''"
    by (simp add: pystr_of_def)
  with assms show ?thesis
    by (simp add: simplify_document_def try_except_def try_except_when_def io_bind_def
        io_raise_def io_return_def io_of_def emit_def Let_def)
qed

lemma simplify_document_corrupt_pdf:
  assumes "model env = Some m"
    and "magic_from_buffer env content = pystr_of ''application/pdf''"
    and "PdfReader env content = Inl e"
  shows "simplify_document env content w =
     (Inl (HTTPException 500 (exn_str env (HTTPException 400
        (pystr_of ''Could not read the PDF document. Please ensure it'' @ [39]
         @ pystr_of ''s a valid PDF file.'')))),
      w @ [FileRead, MagicFromBuffer, PdfRead])"
  using assms
  by (simp add: simplify_document_def read_pdf_file_def try_except_def io_bind_def
      io_raise_def io_return_def io_of_def emit_def Let_def)

lemma simplify_document_undecodable:
  assumes "model env = Some m"
    and "magic_from_buffer env content = pystr_of ''text/plain''"
    and "decode env ''utf-8'' content = Inl (UnicodeDecodeError msg)"
    and "decode env ''latin-1'' content = Inl e"
  shows "simplify_document env content w =
     (Inl (HTTPException 500 (exn_str env (HTTPException 400
        (pystr_of ''Could not decode text file content. Please ensure it''
         @ [39] @ pystr_of ''s a valid text file.'')))),
      w @ [FileRead, MagicFromBuffer])"
proof -
  have "pystr_of ''text/plain'' \<noteq> pystr_of ''application/pdf''"
    by (simp add: pystr_of_def)
  with assms show ?thesis
    by (simp add: simplify_document_def try_except_def try_except_when_def io_bind_def
        io_raise_def io_return_def io_of_def emit_def Let_def)
qed

lemma simplify_document_uninitialised:
  assumes "model env = None"
  shows "simplify_document env content w =
     (Inl (HTTPException 500 (exn_str env (HTTPException 500
        (pystr_of ''Gemini model not initialized properly. Please check your API key and model configuration.'')))),
      w)"
  using assms
  by (simp add: simplify_document_def try_except_def io_bind_def io_raise_def)

lemma simplify_text_chunk_uninitialised:
  assumes "model env = None"
  shows "\<exists>msg. simplify_text_chunk env chunk w =
     (Inl (RetryError (AttributeError msg)),
      w @ [Sleep 2 5, RetryWait 1, Sleep 2 5, RetryWait 2, Sleep 2 5])"
  unfolding simplify_text_chunk_def retry_call_3
  using assms
  by (simp add: simplify_attempt_def generate_content_def try_except_def io_bind_def
      io_raise_def emit_def)

lemma chat_with_document_uninitialised:
  assumes "model env = None"
  shows "\<exists>msg. chat_with_document env message document_content w =
     (Inl (HTTPException 500 (exn_str env (RetryError (AttributeError msg)))),
      w @ [Sleep 2 5, RetryWait 1, Sleep 2 5, RetryWait 2, Sleep 2 5])"
proof -
  from simplify_text_chunk_uninitialised [OF assms]
  obtain msg where "simplify_text_chunk env (chat_prompt message document_content) w =
     (Inl (RetryError (AttributeError msg)),
      w @ [Sleep 2 5, RetryWait 1, Sleep 2 5, RetryWait 2, Sleep 2 5])"
    by blast
  then have "chat_with_document env message document_content w =
     (Inl (HTTPException 500 (exn_str env (RetryError (AttributeError msg)))),
      w @ [Sleep 2 5, RetryWait 1, Sleep 2 5, RetryWait 2, Sleep 2 5])"
    by (simp add: chat_with_document_def try_except_def io_bind_def io_raise_def)
  then show ?thesis by blast
qed

text \<open>
  C1, on the code. A file whose detected type is \<open>image/png\<close>, uploaded to
  \<open>/simplify\<close> with the backend initialised: the handler raises
  \<open>HTTPException(400)\<close> inside its own \<open>try\<close>, the \<open>except Exception\<close> of that
  \<open>try\<close> catches it, and the response is a 500 whose detail is \<open>str\<close> of the 400.
  The same holds for a blank text file.
\<close>

theorem simplify_document_rejection_is_500:
  "simplify_document (flaky_env 0 (pystr_of ''image/png'')) ''PNG'' []
     = (Inl (HTTPException 500
          (pystr_of ''400: Unsupported file type. Please upload a .txt or .pdf file.'')),
        [FileRead, MagicFromBuffer])
   \<and> http_status (fst (simplify_document (flaky_env 0 (pystr_of ''image/png'')) ''PNG'' [])) = 500
   \<and> simplify_document (flaky_env 0 (pystr_of ''text/plain'')) ''  '' []
     = (Inl (HTTPException 500 (pystr_of ''400: The uploaded file is empty'')),
        [FileRead, MagicFromBuffer])
   \<and> http_status (fst (simplify_document (flaky_env 0 (pystr_of ''text/plain'')) ''  '' [])) = 500"
proof -
  have t: "pystr_of ''image/png'' \<noteq> pystr_of ''application/pdf''"
    "pystr_of ''image/png'' \<noteq> pystr_of ''text/plain''"
    by (simp_all add: pystr_of_def)
  have a: "simplify_document (flaky_env 0 (pystr_of ''image/png'')) ''PNG'' []
     = (Inl (HTTPException 500
          (pystr_of ''400: Unsupported file type. Please upload a .txt or .pdf file.'')),
        [FileRead, MagicFromBuffer])"
    using simplify_document_unsupported
      [of "flaky_env 0 (pystr_of ''image/png'')" "flaky_backend 0" "''PNG''" "[]"] t
    by (simp add: model_flaky_env magic_flaky_env exn_str_flaky_env str_nat_400 pystr_of_def)
  have b: "simplify_document (flaky_env 0 (pystr_of ''text/plain'')) ''  '' []
     = (Inl (HTTPException 500 (pystr_of ''400: The uploaded file is empty'')),
        [FileRead, MagicFromBuffer])"
    using simplify_document_blank_text
      [of "flaky_env 0 (pystr_of ''text/plain'')" "flaky_backend 0" "''  ''" "[32, 32]" "[]"]
    by (simp add: model_flaky_env magic_flaky_env decode_flaky_env exn_str_flaky_env str_nat_400
        str_strip_def isspace_def pystr_of_def)
  from a b show ?thesis by simp
qed

text \<open>
  C2, on the code. With the backend uninitialised, \<open>/simplify\<close> answers 500 at once
  (nothing is read, sniffed, extracted or generated). \<open>/chat\<close> has no such check: it
  enters \<open>simplify_text_chunk\<close>, whose three attempts each fail on the missing model
  (with the sleeps and waits of the retry policy in between), and answers 500 with
  \<open>str\<close> of the resulting \<open>RetryError\<close>.
\<close>

theorem uninitialised_backend_endpoints:
  "simplify_document broken_env ''x'' []
     = (Inl (HTTPException 500
          (pystr_of ''500: Gemini model not initialized properly. Please check your API key and model configuration.'')),
        [])
   \<and> chat_with_document broken_env (pystr_of ''hi'') None []
     = (Inl (HTTPException 500
          (pystr_of ''RetryError[<Future at 0x7f2b8c1d4e50 state=finished raised AttributeError>]'')),
        [Sleep 2 5, RetryWait 1, Sleep 2 5, RetryWait 2, Sleep 2 5])"
proof -
  have n: "model broken_env = None" by (simp add: broken_env_def)
  have s: "exn_str broken_env = exn_message (pystr_of ''0x7f2b8c1d4e50'')"
    by (simp add: broken_env_def flaky_env_def)
  from simplify_document_uninitialised [OF n, of "''x''" "[]"]
  have a: "simplify_document broken_env ''x'' []
     = (Inl (HTTPException 500
          (pystr_of ''500: Gemini model not initialized properly. Please check your API key and model configuration.'')),
        [])"
    by (simp add: s str_nat_500 pystr_of_def)
  from chat_with_document_uninitialised [OF n, of "pystr_of ''hi''" None "[]"]
  have b: "chat_with_document broken_env (pystr_of ''hi'') None []
     = (Inl (HTTPException 500
          (pystr_of ''RetryError[<Future at 0x7f2b8c1d4e50 state=finished raised AttributeError>]'')),
        [Sleep 2 5, RetryWait 1, Sleep 2 5, RetryWait 2, Sleep 2 5])"
    by (auto simp add: s pystr_of_def)
  from a b show ?thesis by simp
qed

end
